theory Spec2Isabelle
  imports Complex_Main
begin

section \<open>Data model of \<open>src/App.tsx\<close>\<close>

text \<open>
  The TypeScript type \<open>number\<close> of the data the shell is given is modelled by the exact
  reals: the sums, products, quotients, \<open>Math.max\<close>, \<open>Math.floor\<close> and \<open>Math.ceil\<close> of
  the source are the real ones, and rounding of IEEE doubles and overflow to an infinity
  are outside the model. Two values that the code itself produces from real data are kept:
  \<open>NaN\<close>, which arithmetic on a member of \<open>Object.prototype\<close> gives and which the commit
  handler can store as a stock, and the \<open>Infinity\<close> of \<open>Math.min()\<close> with no argument.

  A \<open>Date\<close> is its \<open>getTime()\<close> value, an integer number of milliseconds. An object used
  as \<open>Record<string, T>\<close> is a map from strings holding its own properties; reading a
  key goes through \<open>getProp\<close> below, which also answers the keys every object inherits.
  The field selectors carry a prefix per interface, since the interfaces share field names
  (\<open>id\<close>, \<open>name\<close>, \<open>weight\<close>) and the state variables and result fields share theirs with
  the variables of the derivations; descriptive fields that no handler or derivation reads
  are left out of the records.
\<close>

type_synonym number = real

datatype jsnum = Num real | NaN

datatype extnum = Val jsnum | Infinity

datatype error = TypeError

datatype UserRole = OwnerAdmin | SalesRepresentative | AccountantBookkeeper | ViewerOnly

record CartItem =
  ci_id :: string
  ci_name :: string
  ci_price :: number
  ci_quantity :: number
  ci_weight :: number
  ci_category :: string
  ci_totalWeight :: number

record Transaction =
  tx_id :: string
  tx_branch :: string
  tx_customer :: string
  tx_customerId :: "string option"
  tx_items :: "CartItem list"
  tx_subtotal :: number
  tx_discount :: number
  tx_total :: number
  tx_timestamp :: int
  tx_cashier :: string
  tx_paymentMethod :: string

record InventoryItem =
  inv_id :: string
  inv_name :: string
  inv_category :: string
  inv_price :: number
  inv_costPrice :: number
  inv_weight :: number
  inv_stock :: "string \<rightharpoonup> jsnum"
  inv_stockWeight :: "string \<rightharpoonup> jsnum"
  inv_lowStockThreshold :: number
  inv_expirationDates :: "(string \<rightharpoonup> int list) option"
  inv_updatedAt :: int

record Customer =
  cust_id :: string
  cust_name :: string
  cust_lastContact :: string
  cust_totalOrders :: number
  cust_totalSpent :: number
  cust_loyaltyPoints :: number
  cust_lastPurchase :: string

record AppState =
  st_currentRole :: UserRole
  st_activeModule :: string
  st_isMobileMenuOpen :: bool
  st_allTransactions :: "Transaction list"
  st_inventory :: "InventoryItem list"
  st_customers :: "Customer list"

record SalesMetrics =
  sm_totalRevenue :: number
  sm_totalOrders :: nat
  sm_averageOrder :: number
  sm_grossProfit :: number
  sm_inventoryValue :: jsnum
  sm_totalInventoryWeight :: jsnum
  sm_totalCOGS :: number

record StockAlert =
  sa_id :: string
  sa_name :: string
  sa_branches :: "string list"
  sa_lowestStock :: extnum
  sa_type :: string

record ExpAlert =
  ea_id :: string
  ea_name :: string
  ea_branch :: string
  ea_daysLeft :: extnum
  ea_type :: string

section \<open>JavaScript primitives used by the source\<close>

text \<open>
  \<open>obj[key]\<close> on a plain object: the own property when there is one, otherwise the member
  that \<open>Object.prototype\<close> has under that name (a function, or the prototype itself for
  \<open>__proto__\<close>), otherwise \<open>undefined\<close>. The names are those of ECMAScript with its
  Annex B.
\<close>

datatype 'a lookup = Own 'a | Inherited | Absent

definition objectPrototypeKeys :: "string list" where
  "objectPrototypeKeys =
     [''constructor'', ''hasOwnProperty'', ''isPrototypeOf'', ''propertyIsEnumerable'',
      ''toLocaleString'', ''toString'', ''valueOf'', ''__proto__'', ''__defineGetter__'',
      ''__defineSetter__'', ''__lookupGetter__'', ''__lookupSetter__'']"

definition getProp :: "(string \<rightharpoonup> 'a) \<Rightarrow> string \<Rightarrow> 'a lookup" where
  "getProp obj key =
     (case obj key of
        Some v \<Rightarrow> Own v
      | None \<Rightarrow> (if key \<in> set objectPrototypeKeys then Inherited else Absent))"

text \<open>
  \<open>x || 0\<close> on an optional number (\<open>inventoryItem?.costPrice || 0\<close>): \<open>undefined\<close> and
  \<open>0\<close> are falsy.
\<close>

definition orZero :: "number option \<Rightarrow> number" where
  "orZero v = (case v of None \<Rightarrow> 0 | Some x \<Rightarrow> (if x = 0 then 0 else x))"

text \<open>
  \<open>item.stock[branch] || 0\<close>: \<open>undefined\<close>, \<open>0\<close> and \<open>NaN\<close> are falsy and give 0; an
  inherited member is an object, which is truthy and is the value.
\<close>

datatype operand = Number real | Object

definition stockOrZero :: "jsnum lookup \<Rightarrow> operand" where
  "stockOrZero p =
     (case p of
        Own v \<Rightarrow> (case v of Num x \<Rightarrow> Number (if x = 0 then 0 else x) | NaN \<Rightarrow> Number 0)
      | Inherited \<Rightarrow> Object
      | Absent \<Rightarrow> Number 0)"

text \<open>
  The operators applied to such a value. An object is turned into the text of its source
  (\<open>function Object() { [native code] }\<close>, \<open>[object Object]\<close>), which is no numeral:
  \<open>+\<close> concatenates and gives a text from then on, a comparison with a number is false,
  and \<open>-\<close>, \<open>*\<close> and \<open>Math.min\<close> see \<open>NaN\<close>.
\<close>

datatype addres = Total real | Text

definition js_plus :: "addres \<Rightarrow> operand \<Rightarrow> addres" where
  "js_plus a v =
     (case a of
        Total s \<Rightarrow> (case v of Number x \<Rightarrow> Total (s + x) | Object \<Rightarrow> Text)
      | Text \<Rightarrow> Text)"

definition js_times :: "addres \<Rightarrow> number \<Rightarrow> jsnum" where
  "js_times a w = (case a of Total s \<Rightarrow> Num (s * w) | Text \<Rightarrow> NaN)"

definition js_add :: "jsnum \<Rightarrow> jsnum \<Rightarrow> jsnum" where
  "js_add a b =
     (case a of Num x \<Rightarrow> (case b of Num y \<Rightarrow> Num (x + y) | NaN \<Rightarrow> NaN) | NaN \<Rightarrow> NaN)"

definition js_le :: "operand \<Rightarrow> number \<Rightarrow> bool" where
  "js_le v n = (case v of Number x \<Rightarrow> x \<le> n | Object \<Rightarrow> False)"

definition js_minus :: "operand \<Rightarrow> number \<Rightarrow> jsnum" where
  "js_minus v n = (case v of Number x \<Rightarrow> Num (x - n) | Object \<Rightarrow> NaN)"

definition js_mult :: "jsnum \<Rightarrow> number \<Rightarrow> jsnum" where
  "js_mult v w = (case v of Num x \<Rightarrow> Num (x * w) | NaN \<Rightarrow> NaN)"

definition toNumber :: "operand \<Rightarrow> jsnum" where
  "toNumber v = (case v of Number x \<Rightarrow> Num x | Object \<Rightarrow> NaN)"

text \<open>\<open>Math.max(a, v)\<close> for a real \<open>a\<close>: \<open>NaN\<close> when \<open>v\<close> is.\<close>

definition math_max :: "number \<Rightarrow> jsnum \<Rightarrow> jsnum" where
  "math_max a v = (case v of Num x \<Rightarrow> Num (max a x) | NaN \<Rightarrow> NaN)"

text \<open>
  \<open>Math.min(...xs)\<close>: \<open>Infinity\<close> when there is no argument, \<open>NaN\<close> when an argument is.
\<close>

fun math_min :: "jsnum list \<Rightarrow> extnum" where
  "math_min [] = Infinity"
| "math_min (NaN # xs) = Val NaN"
| "math_min (Num x # xs) =
     (case math_min xs of
        Infinity \<Rightarrow> Val (Num x)
      | Val m \<Rightarrow> (case m of Num y \<Rightarrow> Val (Num (min x y)) | NaN \<Rightarrow> Val NaN))"

definition math_ceil :: "number \<Rightarrow> number" where
  "math_ceil x = of_int \<lceil>x\<rceil>"

definition math_floor :: "number \<Rightarrow> number" where
  "math_floor x = of_int \<lfloor>x\<rfloor>"

text \<open>Truthiness of an optional string: \<open>undefined\<close> and the empty string are falsy.\<close>

definition truthyStr :: "string option \<Rightarrow> bool" where
  "truthyStr v = (case v of None \<Rightarrow> False | Some s \<Rightarrow> s \<noteq> [])"

text \<open>A \<open>reduce\<close> or \<open>forEach\<close> whose callback may throw: the first error ends it.\<close>

fun foldlE :: "('b \<Rightarrow> 'a \<Rightarrow> error + 'b) \<Rightarrow> 'b \<Rightarrow> 'a list \<Rightarrow> error + 'b" where
  "foldlE f a [] = Inr a"
| "foldlE f a (x # xs) = (case f a x of Inl e \<Rightarrow> Inl e | Inr a' \<Rightarrow> foldlE f a' xs)"

section \<open>Role-based access control\<close>

fun roleName :: "UserRole \<Rightarrow> string" where
  "roleName OwnerAdmin = ''Owner/Admin''"
| "roleName SalesRepresentative = ''Sales Representative''"
| "roleName AccountantBookkeeper = ''Accountant/Bookkeeper''"
| "roleName ViewerOnly = ''Viewer Only''"

definition isAdmin :: "UserRole \<Rightarrow> bool" where
  "isAdmin role = (role = OwnerAdmin)"

definition isWorker :: "UserRole \<Rightarrow> bool" where
  "isWorker role = (role = SalesRepresentative)"

definition canEditInventory :: "UserRole \<Rightarrow> bool" where
  "canEditInventory role = isAdmin role"

definition canEditPrices :: "UserRole \<Rightarrow> bool" where
  "canEditPrices role = isAdmin role"

definition canViewFinancials :: "UserRole \<Rightarrow> bool" where
  "canViewFinancials role = (isAdmin role \<or> role = AccountantBookkeeper)"

fun userRoles :: "UserRole \<Rightarrow> string list" where
  "userRoles OwnerAdmin =
     [''dashboard'', ''pos'', ''reports'', ''crm'', ''sales'', ''inventory'', ''finance'', ''settings'']"
| "userRoles SalesRepresentative = [''dashboard'', ''pos'', ''inventory'', ''crm'']"
| "userRoles AccountantBookkeeper = [''dashboard'', ''reports'', ''finance'']"
| "userRoles ViewerOnly = [''dashboard'', ''reports'']"

definition allowedModules :: "UserRole \<Rightarrow> string list" where
  "allowedModules role = userRoles role"

text \<open>
  The flag \<open>isAdmin\<close> of the component is \<open>isAdmin role\<close> here; where a derivation
  takes it as an input, the parameter is called \<open>admin\<close>.

  The text of the \<open>alert\<close> of \<open>handleModuleChange\<close>; the accented letter of its last word
  is the character of code 243.
\<close>

definition deniedMessage :: "UserRole \<Rightarrow> string" where
  "deniedMessage role =
     ''Acceso denegado. Su rol ('' @ roleName role
       @ '') no tiene permisos para acceder a este m'' @ [char_of (243::nat)] @ ''dulo.''"

text \<open>
  \<open>handleModuleChange\<close>: the new state, and the message shown by \<open>alert\<close> if there is one.
\<close>

definition handleModuleChange :: "string \<Rightarrow> AppState \<Rightarrow> AppState \<times> string option" where
  "handleModuleChange moduleId s =
     (if moduleId \<in> set (allowedModules (st_currentRole s))
      then (s\<lparr>st_activeModule := moduleId, st_isMobileMenuOpen := False\<rparr>, None)
      else (s, Some (deniedMessage (st_currentRole s))))"

section \<open>Analytics\<close>

definition unitCost :: "InventoryItem list \<Rightarrow> CartItem \<Rightarrow> number" where
  "unitCost inventory item =
     orZero (map_option inv_costPrice (find (\<lambda>inv. inv_id inv = ci_id item) inventory))"

definition totalStock :: "string list \<Rightarrow> InventoryItem \<Rightarrow> addres" where
  "totalStock branchNames item =
     foldl (\<lambda>branchSum branch. js_plus branchSum (stockOrZero (getProp (inv_stock item) branch)))
       (Total 0) branchNames"

definition salesMetrics ::
  "Transaction list \<Rightarrow> InventoryItem list \<Rightarrow> string list \<Rightarrow> bool \<Rightarrow> SalesMetrics" where
  "salesMetrics allTransactions inventory branchNames admin =
     (let totalRevenue = foldl (\<lambda>sum t. sum + tx_total t) 0 allTransactions;
          totalOrders = length allTransactions;
          averageOrder = (if totalOrders > 0 then totalRevenue / real totalOrders else 0);
          totalCOGS =
            (if admin
             then foldl (\<lambda>sum t. sum +
                    foldl (\<lambda>itemSum item. itemSum + unitCost inventory item * ci_quantity item)
                      0 (tx_items t)) 0 allTransactions
             else 0);
          grossProfit = (if admin then totalRevenue - totalCOGS else 0);
          inventoryValue =
            (if admin
             then foldl (\<lambda>sum item.
                    js_add sum (js_times (totalStock branchNames item) (inv_costPrice item)))
                    (Num 0) inventory
             else Num 0);
          totalInventoryWeight =
            foldl (\<lambda>sum item.
              js_add sum (js_times (totalStock branchNames item) (inv_weight item)))
              (Num 0) inventory
      in \<lparr>sm_totalRevenue = totalRevenue, sm_totalOrders = totalOrders,
          sm_averageOrder = averageOrder, sm_grossProfit = grossProfit,
          sm_inventoryValue = inventoryValue, sm_totalInventoryWeight = totalInventoryWeight,
          sm_totalCOGS = totalCOGS\<rparr>)"

text \<open>
  The two alert lists come out of one \<open>useMemo\<close>: \<open>stockAlerts\<close> is computed first, then
  \<open>expAlerts\<close>, and an error thrown by the second leaves neither.
\<close>

definition isLowStock :: "InventoryItem \<Rightarrow> string \<Rightarrow> bool" where
  "isLowStock item branch =
     js_le (stockOrZero (getProp (inv_stock item) branch)) (inv_lowStockThreshold item)"

definition stockAlerts :: "InventoryItem list \<Rightarrow> string list \<Rightarrow> StockAlert list" where
  "stockAlerts inventory branchNames =
     map (\<lambda>item.
           \<lparr>sa_id = inv_id item, sa_name = inv_name item,
            sa_branches = filter (isLowStock item) branchNames,
            sa_lowestStock =
              math_min (map (\<lambda>branch. toNumber (stockOrZero (getProp (inv_stock item) branch)))
                branchNames),
            sa_type = ''stock''\<rparr>)
         (filter (\<lambda>item. list_ex (isLowStock item) branchNames) inventory)"

text \<open>
  \<open>now\<close> is the reading of the clock, \<open>new Date().getTime()\<close>; one derivation of the alerts
  is modelled with one reading.
\<close>

definition daysUntilExpiration :: "int \<Rightarrow> int \<Rightarrow> number" where
  "daysUntilExpiration now date = math_ceil (real_of_int (date - now) / (1000 * 60 * 60 * 24))"

definition isExpiring :: "int \<Rightarrow> int \<Rightarrow> bool" where
  "isExpiring now date =
     (daysUntilExpiration now date \<le> 20 \<and> daysUntilExpiration now date > 0)"

text \<open>
  The body of the \<open>forEach\<close> over the branch names, for one item. An inherited member
  passes the test \<open>item.expirationDates[branch]\<close> and has no \<open>filter\<close>: the call throws.
\<close>

definition expAlertStep ::
  "int \<Rightarrow> InventoryItem \<Rightarrow> ExpAlert list \<Rightarrow> string \<Rightarrow> error + ExpAlert list" where
  "expAlertStep now item alerts branch =
     (case inv_expirationDates item of
        None \<Rightarrow> Inr alerts
      | Some dates \<Rightarrow>
          (case getProp dates branch of
             Absent \<Rightarrow> Inr alerts
           | Inherited \<Rightarrow> Inl TypeError
           | Own batch \<Rightarrow>
               (let expiringItems = filter (isExpiring now) batch
                in if length expiringItems > 0
                   then Inr (alerts @
                     [\<lparr>ea_id = inv_id item @ ''-'' @ branch, ea_name = inv_name item,
                       ea_branch = branch,
                       ea_daysLeft =
                         math_min (map (\<lambda>date. Num (daysUntilExpiration now date)) expiringItems),
                       ea_type = ''expiration''\<rparr>])
                   else Inr alerts)))"

definition expAlerts :: "int \<Rightarrow> InventoryItem list \<Rightarrow> string list \<Rightarrow> error + ExpAlert list" where
  "expAlerts now inventory branchNames =
     foldlE (\<lambda>alerts item. foldlE (expAlertStep now item) alerts branchNames) [] inventory"

definition alertsMemo ::
  "int \<Rightarrow> InventoryItem list \<Rightarrow> string list \<Rightarrow> error + StockAlert list \<times> ExpAlert list" where
  "alertsMemo now inventory branchNames =
     (case expAlerts now inventory branchNames of
        Inl e \<Rightarrow> Inl e
      | Inr alerts \<Rightarrow> Inr (stockAlerts inventory branchNames, alerts))"

definition lowStockAlerts :: "int \<Rightarrow> InventoryItem list \<Rightarrow> string list \<Rightarrow> error + StockAlert list" where
  "lowStockAlerts now inventory branchNames = map_sum id fst (alertsMemo now inventory branchNames)"


section \<open>The transaction-commit handler\<close>

text \<open>
  \<open>now\<close> is the clock reading of the commit and \<open>fmt\<close> stands for
  \<open>toLocaleDateString('es-NI')\<close>, a function of the platform.
\<close>

definition deductStock :: "int \<Rightarrow> Transaction \<Rightarrow> InventoryItem \<Rightarrow> InventoryItem" where
  "deductStock now transaction item =
     (case find (\<lambda>cartItem. ci_id cartItem = inv_id item) (tx_items transaction) of
        Some soldItem \<Rightarrow>
          (let currentStock = stockOrZero (getProp (inv_stock item) (tx_branch transaction));
               newStock = math_max 0 (js_minus currentStock (ci_quantity soldItem));
               newStockWeight = js_mult newStock (inv_weight item)
           in item\<lparr>inv_stock := (inv_stock item)(tx_branch transaction \<mapsto> newStock),
                   inv_stockWeight := (inv_stockWeight item)(tx_branch transaction \<mapsto> newStockWeight),
                   inv_updatedAt := now\<rparr>)
      | None \<Rightarrow> item)"

definition recordPurchase :: "(int \<Rightarrow> string) \<Rightarrow> int \<Rightarrow> Transaction \<Rightarrow> Customer \<Rightarrow> Customer" where
  "recordPurchase fmt now transaction customer =
     (if Some (cust_id customer) = tx_customerId transaction
      then customer\<lparr>cust_totalOrders := cust_totalOrders customer + 1,
                    cust_totalSpent := cust_totalSpent customer + tx_total transaction,
                    cust_lastPurchase := fmt now,
                    cust_lastContact := fmt now,
                    cust_loyaltyPoints :=
                      cust_loyaltyPoints customer + math_floor (tx_total transaction / 100)\<rparr>
      else customer)"

definition handleNewTransaction ::
  "(int \<Rightarrow> string) \<Rightarrow> int \<Rightarrow> Transaction \<Rightarrow> AppState \<Rightarrow> AppState" where
  "handleNewTransaction fmt now transaction s =
     (let s1 = s\<lparr>st_allTransactions := transaction # st_allTransactions s\<rparr>;
          s2 = s1\<lparr>st_inventory := map (deductStock now transaction) (st_inventory s1)\<rparr>
      in if truthyStr (tx_customerId transaction)
         then s2\<lparr>st_customers := map (recordPurchase fmt now transaction) (st_customers s2)\<rparr>
         else s2)"

section \<open>Sample data\<close>

text \<open>
  The concrete values at which the theorems below are evaluated: a product stocked at the
  branch \<open>Main\<close> with unit weight 2, cost price 3 and low-stock threshold 5, a cart line,
  a sale at a branch, a customer who has spent 500, and a state of the shell.
\<close>

definition sampleItem :: "string \<Rightarrow> number \<Rightarrow> InventoryItem" where
  "sampleItem i q =
     \<lparr>inv_id = i, inv_name = ''Concentrado'', inv_category = ''feed'', inv_price = 15,
      inv_costPrice = 3, inv_weight = 2, inv_stock = [''Main'' \<mapsto> Num q],
      inv_stockWeight = [''Main'' \<mapsto> Num (q * 2)], inv_lowStockThreshold = 5,
      inv_expirationDates = None, inv_updatedAt = 0\<rparr>"


definition sampleLine :: "string \<Rightarrow> number \<Rightarrow> CartItem" where
  "sampleLine i q =
     \<lparr>ci_id = i, ci_name = ''Concentrado'', ci_price = 15, ci_quantity = q, ci_weight = 2,
      ci_category = ''feed'', ci_totalWeight = q * 2\<rparr>"

definition sampleSaleAt ::
  "string \<Rightarrow> string option \<Rightarrow> CartItem list \<Rightarrow> number \<Rightarrow> Transaction" where
  "sampleSaleAt b c ls tot =
     \<lparr>tx_id = ''T1'', tx_branch = b, tx_customer = ''Ana'', tx_customerId = c,
      tx_items = ls, tx_subtotal = tot, tx_discount = 0, tx_total = tot, tx_timestamp = 0,
      tx_cashier = ''Sarah'', tx_paymentMethod = ''cash''\<rparr>"

definition sampleSale :: "string option \<Rightarrow> CartItem list \<Rightarrow> number \<Rightarrow> Transaction" where
  "sampleSale c ls tot = sampleSaleAt ''Main'' c ls tot"

definition sampleCustomer :: "string \<Rightarrow> Customer" where
  "sampleCustomer i =
     \<lparr>cust_id = i, cust_name = ''Ana'', cust_lastContact = ''1/1/2024'', cust_totalOrders = 4,
      cust_totalSpent = 500, cust_loyaltyPoints = 5, cust_lastPurchase = ''1/1/2024''\<rparr>"

definition sampleState :: "UserRole \<Rightarrow> InventoryItem list \<Rightarrow> Customer list \<Rightarrow> AppState" where
  "sampleState r items cs =
     \<lparr>st_currentRole = r, st_activeModule = ''dashboard'', st_isMobileMenuOpen = True,
      st_allTransactions = [], st_inventory = items, st_customers = cs\<rparr>"

definition sampleFmt :: "int \<Rightarrow> string" where
  "sampleFmt t = ''2/1/2024''"

section \<open>The quantities of the specification\<close>


definition onHand :: "InventoryItem \<Rightarrow> string \<Rightarrow> number" where
  "onHand item branch =
     (case inv_stock item branch of
        None \<Rightarrow> 0
      | Some v \<Rightarrow> (case v of Num q \<Rightarrow> q | NaN \<Rightarrow> 0))"


text \<open>
  A branch name is plain for an object when reading it does not reach
  \<open>Object.prototype\<close>: the object has the key, or the name is not one of the inherited
  ones.
\<close>

definition plainKey :: "(string \<rightharpoonup> 'a) \<Rightarrow> string \<Rightarrow> bool" where
  "plainKey obj key = (getProp obj key \<noteq> Inherited)"


text \<open>
  The cost of one cart line in the spec's words: the cost price of the matched inventory
  record, the first one carrying the line's id, times the quantity sold, and 0 when no
  record matches.
\<close>

definition lineCost :: "InventoryItem list \<Rightarrow> CartItem \<Rightarrow> number" where
  "lineCost inventory item =
     (case find (\<lambda>i. inv_id i = ci_id item) inventory of
        None \<Rightarrow> 0
      | Some i \<Rightarrow> inv_costPrice i * ci_quantity item)"


section \<open>Auxiliary facts\<close>

lemma orZero_eq: "orZero v = (case v of None \<Rightarrow> 0 | Some x \<Rightarrow> x)"
  by (simp add: orZero_def split: option.splits)

lemma foldl_add_sum_list:
  fixes f :: "'a \<Rightarrow> real"
  shows "foldl (\<lambda>s x. s + f x) a xs = a + sum_list (map f xs)"
  by (induction xs arbitrary: a) simp_all

lemma admin_sees_all: "set (allowedModules R') \<subseteq> set (allowedModules OwnerAdmin)"
  by (cases R') (simp_all add: allowedModules_def)

lemma admin_modules:
  "''finance'' \<in> set (allowedModules OwnerAdmin)"
  "''inventory'' \<in> set (allowedModules OwnerAdmin)"
  by (simp_all add: allowedModules_def)

lemma unitCost_lineCost: "unitCost inventory item * ci_quantity item = lineCost inventory item"
  by (simp add: unitCost_def lineCost_def orZero_eq split: option.splits)

lemma sm_totalRevenue_sum:
  "sm_totalRevenue (salesMetrics T inventory bn adm) = sum_list (map tx_total T)"
  by (simp add: salesMetrics_def Let_def foldl_add_sum_list)

lemma stockOrZero_plain:
  "plainKey (inv_stock item) b \<Longrightarrow>
     stockOrZero (getProp (inv_stock item) b) = Number (onHand item b)"
  by (simp add: plainKey_def getProp_def stockOrZero_def onHand_def
      split: option.splits jsnum.splits if_splits)

lemma foldl_js_plus:
  "\<forall>b \<in> set bn. plainKey (inv_stock item) b \<Longrightarrow>
     foldl (\<lambda>branchSum branch. js_plus branchSum (stockOrZero (getProp (inv_stock item) branch)))
       (Total a) bn = Total (a + (\<Sum>b\<leftarrow>bn. onHand item b))"
  by (induction bn arbitrary: a) (simp_all add: js_plus_def stockOrZero_plain)

lemma totalStock_plain:
  "\<forall>b \<in> set bn. plainKey (inv_stock item) b \<Longrightarrow>
     totalStock bn item = Total (\<Sum>b\<leftarrow>bn. onHand item b)"
  using foldl_js_plus [of bn item 0] by (simp add: totalStock_def)

lemma foldl_js_add:
  "\<forall>x \<in> set xs. g x = Num (h x) \<Longrightarrow>
     foldl (\<lambda>sum x. js_add sum (g x)) (Num a) xs = Num (a + (\<Sum>x\<leftarrow>xs. h x))"
  by (induction xs arbitrary: a) (simp_all add: js_add_def)

lemma sample_plain:
  "plainKey (inv_stock (sampleItem i q)) ''Main''"
  "plainKey (inv_stock (sampleItem i q)) ''Norte''"
  "\<not> plainKey (inv_stock (sampleItem i q)) ''constructor''"
  by (simp_all add: plainKey_def getProp_def objectPrototypeKeys_def sampleItem_def)

lemma math_min_Num: "xs \<noteq> [] \<Longrightarrow> math_min (map Num xs) = Val (Num (Min (set xs)))"
proof (induction xs)
  case Nil
  then show ?case by simp
next
  case (Cons x xs)
  show ?case
  proof (cases "xs = []")
    case True
    then show ?thesis by simp
  next
    case False
    with Cons.IH have "math_min (map Num xs) = Val (Num (Min (set xs)))" by simp
    moreover from False have "Min (set (x # xs)) = min x (Min (set xs))"
      by (simp add: Min_insert)
    ultimately show ?thesis by simp
  qed
qed

lemma isLowStock_plain:
  "plainKey (inv_stock item) b \<Longrightarrow>
     isLowStock item b = (onHand item b \<le> inv_lowStockThreshold item)"
  by (simp add: isLowStock_def stockOrZero_plain js_le_def)

lemma lowestStock_plain:
  assumes "\<forall>b \<in> set bn. plainKey (inv_stock item) b" and "bn \<noteq> []"
  shows "math_min (map (\<lambda>branch. toNumber (stockOrZero (getProp (inv_stock item) branch))) bn) =
     Val (Num (Min (onHand item ` set bn)))"
proof -
  have m: "map (\<lambda>branch. toNumber (stockOrZero (getProp (inv_stock item) branch))) bn =
      map Num (map (onHand item) bn)"
    using assms(1) by (simp add: stockOrZero_plain toNumber_def)
  have "math_min (map Num (map (onHand item) bn)) =
      Val (Num (Min (set (map (onHand item) bn))))"
    using assms(2) by (intro math_min_Num) simp
  then show ?thesis
    unfolding m by simp
qed

text \<open>
  The low-stock alerts where every named branch is a plain key of the stock records: the
  items with some named branch at or below the threshold, each with the branches at or
  below it and the least on-hand quantity over the named branches.
\<close>

lemma stockAlerts_plain:
  assumes "\<forall>item \<in> set inventory. \<forall>b \<in> set bn. plainKey (inv_stock item) b"
  shows "stockAlerts inventory bn =
     map (\<lambda>item.
           \<lparr>sa_id = inv_id item, sa_name = inv_name item,
            sa_branches = filter (\<lambda>b. onHand item b \<le> inv_lowStockThreshold item) bn,
            sa_lowestStock = Val (Num (Min (onHand item ` set bn))),
            sa_type = ''stock''\<rparr>)
         (filter (\<lambda>item. \<exists>b \<in> set bn. onHand item b \<le> inv_lowStockThreshold item) inventory)"
proof -
  have f: "filter (\<lambda>item. list_ex (isLowStock item) bn) inventory =
      filter (\<lambda>item. \<exists>b \<in> set bn. onHand item b \<le> inv_lowStockThreshold item) inventory"
    using assms by (intro filter_cong [OF refl]) (simp add: list_ex_iff isLowStock_plain)
  show ?thesis
    unfolding stockAlerts_def f
  proof (rule map_cong [OF refl])
    fix item
    assume "item \<in> set (filter (\<lambda>item. \<exists>b \<in> set bn. onHand item b \<le> inv_lowStockThreshold item) inventory)"
    then have i: "item \<in> set inventory" and "bn \<noteq> []" by auto
    with assms have p: "\<forall>b \<in> set bn. plainKey (inv_stock item) b" by simp
    then have "filter (isLowStock item) bn =
        filter (\<lambda>b. onHand item b \<le> inv_lowStockThreshold item) bn"
      by (intro filter_cong [OF refl]) (simp add: isLowStock_plain)
    moreover have "math_min (map (\<lambda>branch. toNumber (stockOrZero (getProp (inv_stock item) branch))) bn) =
        Val (Num (Min (onHand item ` set bn)))"
      using p \<open>bn \<noteq> []\<close> by (rule lowestStock_plain)
    ultimately show "\<lparr>sa_id = inv_id item, sa_name = inv_name item,
            sa_branches = filter (isLowStock item) bn,
            sa_lowestStock =
              math_min (map (\<lambda>branch. toNumber (stockOrZero (getProp (inv_stock item) branch))) bn),
            sa_type = ''stock''\<rparr> =
          \<lparr>sa_id = inv_id item, sa_name = inv_name item,
            sa_branches = filter (\<lambda>b. onHand item b \<le> inv_lowStockThreshold item) bn,
            sa_lowestStock = Val (Num (Min (onHand item ` set bn))), sa_type = ''stock''\<rparr>"
      by simp
  qed
qed

lemma stockAlerts_threshold:
  "map sa_branches (stockAlerts [sampleItem ''X'' 5] [''Main'']) = [[''Main'']]"
  "stockAlerts [sampleItem ''X'' 6] [''Main''] = []"
  by (simp_all add: stockAlerts_def isLowStock_def stockOrZero_def getProp_def js_le_def
      sampleItem_def)







lemma st_allTransactions_commit:
  "st_allTransactions (handleNewTransaction fmt now t s) = t # st_allTransactions s"
  by (simp add: handleNewTransaction_def Let_def)

lemma st_inventory_commit:
  "st_inventory (handleNewTransaction fmt now t s) = map (deductStock now t) (st_inventory s)"
  by (simp add: handleNewTransaction_def Let_def)

lemma st_customers_commit:
  "st_customers (handleNewTransaction fmt now t s) =
     (if truthyStr (tx_customerId t) then map (recordPurchase fmt now t) (st_customers s)
      else st_customers s)"
  by (simp add: handleNewTransaction_def Let_def)

lemma find_first:
  "\<forall>l \<in> set pre. \<not> P l \<Longrightarrow> P x \<Longrightarrow> find P (pre @ x # post) = Some x"
  by (induction pre) simp_all

lemma find_skip: "\<not> P x \<Longrightarrow> find P (pre @ x # post) = find P (pre @ post)"
  by (induction pre) simp_all

lemma deductStock_unmatched:
  "\<forall>l \<in> set (tx_items t). ci_id l \<noteq> inv_id item \<Longrightarrow> deductStock now t item = item"
proof -
  assume "\<forall>l \<in> set (tx_items t). ci_id l \<noteq> inv_id item"
  then have "find (\<lambda>cartItem. ci_id cartItem = inv_id item) (tx_items t) = None"
    by (simp add: find_None_iff)
  then show ?thesis by (simp add: deductStock_def)
qed

lemma recordPurchase_unmatched:
  "Some (cust_id c) \<noteq> tx_customerId t \<Longrightarrow> recordPurchase fmt now t c = c"
  by (simp add: recordPurchase_def)

lemma deductStock_skip:
  assumes "inv_id item \<noteq> ci_id line"
  shows "deductStock now (t\<lparr>tx_items := pre @ line # post\<rparr>) item =
         deductStock now (t\<lparr>tx_items := pre @ post\<rparr>) item"
proof -
  have "find (\<lambda>cartItem. ci_id cartItem = inv_id item) (pre @ line # post) =
        find (\<lambda>cartItem. ci_id cartItem = inv_id item) (pre @ post)"
    using assms by (intro find_skip) simp
  then show ?thesis by (simp add: deductStock_def cong: option.case_cong)
qed

lemma deductStock_first_line:
  assumes "tx_items t = pre @ line # post"
    and "\<forall>l \<in> set pre. ci_id l \<noteq> ci_id line"
    and "ci_id line = inv_id item"
    and "plainKey (inv_stock item) (tx_branch t)"
  shows "deductStock now t item =
     item\<lparr>inv_stock := (inv_stock item)(tx_branch t \<mapsto>
              Num (max 0 (onHand item (tx_branch t) - ci_quantity line))),
           inv_stockWeight := (inv_stockWeight item)(tx_branch t \<mapsto>
              Num (max 0 (onHand item (tx_branch t) - ci_quantity line) * inv_weight item)),
           inv_updatedAt := now\<rparr>"
proof -
  have "find (\<lambda>cartItem. ci_id cartItem = inv_id item) (pre @ line # post) = Some line"
    using assms(2,3) by (intro find_first) simp_all
  then have "find (\<lambda>cartItem. ci_id cartItem = inv_id item) (tx_items t) = Some line"
    using assms(1) by simp
  then show ?thesis
    using assms(4)
    by (simp add: deductStock_def Let_def stockOrZero_plain js_minus_def math_max_def
        js_mult_def)
qed

lemma recordPurchase_matched:
  assumes "tx_customerId t = Some (cust_id c)"
  shows "recordPurchase fmt now t c =
     c\<lparr>cust_totalOrders := cust_totalOrders c + 1,
       cust_totalSpent := cust_totalSpent c + tx_total t,
       cust_lastPurchase := fmt now,
       cust_lastContact := fmt now,
       cust_loyaltyPoints := cust_loyaltyPoints c + of_int \<lfloor>tx_total t / 100\<rfloor>\<rparr>"
  using assms by (simp add: recordPurchase_def math_floor_def)

section \<open>The access gate\<close>

text \<open>
  Claim C2. A module-change request succeeds, that is shows no message, exactly when the
  requested module is among those allowed to the current role, and the active module is
  then the requested one. A request for a module that is not allowed leaves every part of
  the state as it was and shows the denial message, which carries the name of the role.
  The handler has no failing branch.
\<close>

theorem handleModuleChange_gate:
  "(snd (handleModuleChange m s) = None) = (m \<in> set (allowedModules (st_currentRole s)))
   \<and> (m \<in> set (allowedModules (st_currentRole s)) \<longrightarrow>
        st_activeModule (fst (handleModuleChange m s)) = m)
   \<and> (m \<notin> set (allowedModules (st_currentRole s)) \<longrightarrow>
        fst (handleModuleChange m s) = s
        \<and> snd (handleModuleChange m s) =
            Some (''Acceso denegado. Su rol ('' @ roleName (st_currentRole s)
              @ '') no tiene permisos para acceder a este m'' @ [char_of (243::nat)] @ ''dulo.''))"
  by (simp add: handleModuleChange_def deniedMessage_def)

theorem handleModuleChange_gate_witness:
  "''finance'' \<notin> set (allowedModules (st_currentRole (sampleState SalesRepresentative [] [])))
   \<and> fst (handleModuleChange ''finance'' (sampleState SalesRepresentative [] []))
       = sampleState SalesRepresentative [] []
   \<and> snd (handleModuleChange ''finance'' (sampleState SalesRepresentative [] [])) =
       Some (''Acceso denegado. Su rol (Sales Representative) no tiene permisos para acceder a este m''
              @ [char_of (243::nat)] @ ''dulo.'')
   \<and> ''pos'' \<in> set (allowedModules (st_currentRole (sampleState SalesRepresentative [] [])))
   \<and> st_activeModule (fst (handleModuleChange ''pos'' (sampleState SalesRepresentative [] [])))
       = ''pos''
   \<and> snd (handleModuleChange ''pos'' (sampleState SalesRepresentative [] [])) = None"
proof -
  have d: "''finance'' \<notin> set (allowedModules (st_currentRole (sampleState SalesRepresentative [] [])))"
    by (simp add: sampleState_def allowedModules_def)
  have a: "''pos'' \<in> set (allowedModules (st_currentRole (sampleState SalesRepresentative [] [])))"
    by (simp add: sampleState_def allowedModules_def)
  have r: "roleName (st_currentRole (sampleState SalesRepresentative [] [])) = ''Sales Representative''"
    by (simp add: sampleState_def)
  show ?thesis
    using d a r
      handleModuleChange_gate [of "''finance''" "sampleState SalesRepresentative [] []"]
      handleModuleChange_gate [of "''pos''" "sampleState SalesRepresentative [] []"]
    by simp
qed

text \<open>
  Claim C10. The capabilities are functions of the role alone and agree with the table of
  modules: a role can view the financials exactly when the finance module is allowed to
  it, so a role without the finance module cannot view them and a role that can view them
  has the module; a role that can edit the inventory or the prices has the inventory
  module, and the administrator has every module any role has.
\<close>

theorem capabilities_consistent:
  "(canViewFinancials R = (''finance'' \<in> set (allowedModules R)))
   \<and> (''finance'' \<notin> set (allowedModules R) \<longrightarrow> \<not> canViewFinancials R)
   \<and> (canViewFinancials R \<longrightarrow> ''finance'' \<in> set (allowedModules R))
   \<and> (canEditInventory R \<longrightarrow> ''inventory'' \<in> set (allowedModules R))
   \<and> (canEditPrices R \<longrightarrow> ''inventory'' \<in> set (allowedModules R))
   \<and> (isAdmin R \<longrightarrow> set (allowedModules R') \<subseteq> set (allowedModules R))"
proof (cases R)
  case OwnerAdmin
  then show ?thesis
    using admin_sees_all [of R']
    by (simp add: canViewFinancials_def canEditInventory_def canEditPrices_def isAdmin_def
        admin_modules)
next
  case SalesRepresentative
  then show ?thesis
    by (simp add: canViewFinancials_def canEditInventory_def canEditPrices_def isAdmin_def
        allowedModules_def)
next
  case AccountantBookkeeper
  then show ?thesis
    by (simp add: canViewFinancials_def canEditInventory_def canEditPrices_def isAdmin_def
        allowedModules_def)
next
  case ViewerOnly
  then show ?thesis
    by (simp add: canViewFinancials_def canEditInventory_def canEditPrices_def isAdmin_def
        allowedModules_def)
qed

theorem capabilities_consistent_witness:
  "''finance'' \<notin> set (allowedModules ViewerOnly) \<and> \<not> canViewFinancials ViewerOnly
   \<and> canViewFinancials AccountantBookkeeper
   \<and> ''finance'' \<in> set (allowedModules AccountantBookkeeper)
   \<and> canEditInventory OwnerAdmin \<and> canEditPrices OwnerAdmin \<and> isAdmin OwnerAdmin
   \<and> ''inventory'' \<in> set (allowedModules OwnerAdmin)
   \<and> set (allowedModules SalesRepresentative) \<subseteq> set (allowedModules OwnerAdmin)"
proof -
  have v: "''finance'' \<notin> set (allowedModules ViewerOnly)"
    by (simp add: allowedModules_def)
  have a: "canViewFinancials AccountantBookkeeper"
    by (simp add: canViewFinancials_def)
  have o: "canEditInventory OwnerAdmin \<and> canEditPrices OwnerAdmin \<and> isAdmin OwnerAdmin"
    by (simp add: canEditInventory_def canEditPrices_def isAdmin_def)
  show ?thesis
    using v a o capabilities_consistent [of ViewerOnly]
      capabilities_consistent [of AccountantBookkeeper]
      capabilities_consistent [of OwnerAdmin SalesRepresentative]
    by blast
qed

section \<open>Sales metrics\<close>

text \<open>
  Claim C7. The total revenue is the sum of the totals of the transactions, the order
  count is their number, and the average order is the revenue divided by the count when
  there is a transaction and 0 when there is none. With no transaction the metrics derived
  from the transactions are all 0, and with no inventory either every metric is 0.
\<close>

theorem salesMetrics_revenue:
  "sm_totalRevenue (salesMetrics T inventory bn adm) = sum_list (map tx_total T)
   \<and> sm_totalOrders (salesMetrics T inventory bn adm) = length T
   \<and> sm_averageOrder (salesMetrics T inventory bn adm) =
       (if length T > 0 then sum_list (map tx_total T) / real (length T) else 0)
   \<and> (T = [] \<longrightarrow> sm_totalRevenue (salesMetrics T inventory bn adm) = 0
         \<and> sm_totalOrders (salesMetrics T inventory bn adm) = 0
         \<and> sm_averageOrder (salesMetrics T inventory bn adm) = 0
         \<and> sm_totalCOGS (salesMetrics T inventory bn adm) = 0
         \<and> sm_grossProfit (salesMetrics T inventory bn adm) = 0)
   \<and> salesMetrics [] [] bn adm =
       \<lparr>sm_totalRevenue = 0, sm_totalOrders = 0, sm_averageOrder = 0, sm_grossProfit = 0,
        sm_inventoryValue = Num 0, sm_totalInventoryWeight = Num 0, sm_totalCOGS = 0\<rparr>"
  by (simp add: salesMetrics_def Let_def foldl_add_sum_list)

theorem salesMetrics_revenue_witness:
  "sm_totalRevenue (salesMetrics [sampleSale None [] 250, sampleSale None [] 50] [] [] False) = 300
   \<and> sm_totalOrders (salesMetrics [sampleSale None [] 250, sampleSale None [] 50] [] [] False) = 2
   \<and> sm_averageOrder (salesMetrics [sampleSale None [] 250, sampleSale None [] 50] [] [] False) = 150
   \<and> sm_averageOrder (salesMetrics [] [sampleItem ''X'' 10] [''Main''] True) = 0
   \<and> sm_totalRevenue (salesMetrics [] [sampleItem ''X'' 10] [''Main''] True) = 0"
  using salesMetrics_revenue [of "[sampleSale None [] 250, sampleSale None [] 50]" "[]" "[]" False]
    salesMetrics_revenue [of "[]" "[sampleItem ''X'' 10]" "[''Main'']" True]
  by (simp add: sampleSale_def sampleSaleAt_def)

text \<open>
  Claim C3. Without the admin flag the cost of goods sold and the gross profit are 0. With
  it, the cost of goods sold is the sum, over the transactions and their lines, of the cost
  price of the matched inventory record times the quantity sold, a line that matches no
  record adding 0, and the gross profit is the total revenue minus the cost of goods
  sold.
\<close>

theorem salesMetrics_cogs:
  "sm_totalCOGS (salesMetrics T inventory bn adm) =
     (if adm then (\<Sum>t\<leftarrow>T. \<Sum>item\<leftarrow>tx_items t. lineCost inventory item) else 0)
   \<and> sm_grossProfit (salesMetrics T inventory bn adm) =
     (if adm then sm_totalRevenue (salesMetrics T inventory bn adm)
                   - sm_totalCOGS (salesMetrics T inventory bn adm) else 0)
   \<and> (\<not> adm \<longrightarrow> sm_totalCOGS (salesMetrics T inventory bn adm) = 0
               \<and> sm_grossProfit (salesMetrics T inventory bn adm) = 0)
   \<and> ((\<forall>i \<in> set inventory. inv_id i \<noteq> ci_id item) \<longrightarrow> lineCost inventory item = 0)
   \<and> (inventory = pre @ i # post \<and> (\<forall>j \<in> set pre. inv_id j \<noteq> ci_id item) \<and> inv_id i = ci_id item
        \<longrightarrow> lineCost inventory item = inv_costPrice i * ci_quantity item)"
proof -
  have 1: "(\<forall>i \<in> set inventory. inv_id i \<noteq> ci_id item) \<longrightarrow> lineCost inventory item = 0"
  proof
    assume "\<forall>i \<in> set inventory. inv_id i \<noteq> ci_id item"
    then have "find (\<lambda>i. inv_id i = ci_id item) inventory = None"
      by (simp add: find_None_iff)
    then show "lineCost inventory item = 0"
      by (simp add: lineCost_def)
  qed
  have 2: "inventory = pre @ i # post \<and> (\<forall>j \<in> set pre. inv_id j \<noteq> ci_id item) \<and> inv_id i = ci_id item
        \<longrightarrow> lineCost inventory item = inv_costPrice i * ci_quantity item"
    by (induction pre arbitrary: inventory) (auto simp add: lineCost_def)
  show ?thesis using 1 2
    by (simp add: salesMetrics_def Let_def foldl_add_sum_list unitCost_lineCost)
qed

theorem salesMetrics_cogs_witness:
  "sm_totalCOGS (salesMetrics [sampleSale None [sampleLine ''X'' 3, sampleLine ''Y'' 4] 250]
      [sampleItem ''X'' 10] [''Main''] True) = 9
   \<and> sm_grossProfit (salesMetrics [sampleSale None [sampleLine ''X'' 3, sampleLine ''Y'' 4] 250]
      [sampleItem ''X'' 10] [''Main''] True) = 241
   \<and> sm_totalCOGS (salesMetrics [sampleSale None [sampleLine ''X'' 3, sampleLine ''Y'' 4] 250]
      [sampleItem ''X'' 10] [''Main''] False) = 0
   \<and> sm_grossProfit (salesMetrics [sampleSale None [sampleLine ''X'' 3, sampleLine ''Y'' 4] 250]
      [sampleItem ''X'' 10] [''Main''] False) = 0
   \<and> inv_id (sampleItem ''X'' 10) \<noteq> ci_id (sampleLine ''Y'' 4)
   \<and> lineCost [sampleItem ''X'' 10] (sampleLine ''Y'' 4) = 0
   \<and> lineCost [sampleItem ''X'' 10] (sampleLine ''X'' 3) = 9"
proof -
  have u: "\<forall>i \<in> set [sampleItem ''X'' 10]. inv_id i \<noteq> ci_id (sampleLine ''Y'' 4)"
    by (simp add: sampleItem_def sampleLine_def)
  have m: "[sampleItem ''X'' 10] = [] @ sampleItem ''X'' 10 # []
      \<and> (\<forall>j \<in> set []. inv_id j \<noteq> ci_id (sampleLine ''X'' 3))
      \<and> inv_id (sampleItem ''X'' 10) = ci_id (sampleLine ''X'' 3)"
    by (simp add: sampleItem_def sampleLine_def)
  have y: "lineCost [sampleItem ''X'' 10] (sampleLine ''Y'' 4) = 0"
    using u salesMetrics_cogs [of "[]" "[sampleItem ''X'' 10]" "[]" True "sampleLine ''Y'' 4"]
    by blast
  have x: "lineCost [sampleItem ''X'' 10] (sampleLine ''X'' 3) = 9"
    using m salesMetrics_cogs [of "[]" "[sampleItem ''X'' 10]" "[]" True "sampleLine ''X'' 3"
        "[]" "sampleItem ''X'' 10" "[]"]
    by (simp add: sampleItem_def sampleLine_def)
  show ?thesis
    using u x y
      salesMetrics_cogs [of "[sampleSale None [sampleLine ''X'' 3, sampleLine ''Y'' 4] 250]"
        "[sampleItem ''X'' 10]" "[''Main'']" True]
      salesMetrics_cogs [of "[sampleSale None [sampleLine ''X'' 3, sampleLine ''Y'' 4] 250]"
        "[sampleItem ''X'' 10]" "[''Main'']" False]
    by (simp add: sampleSale_def sampleSaleAt_def sm_totalRevenue_sum)
qed

text \<open>
  Claim C5. As stated, for every value of the admin flag, the claim fails: without the
  flag the valuation is 0 whatever the inventory holds, here 0 against 10 units of cost
  price 3.
\<close>

theorem salesMetrics_inventory_counterexample:
  "sm_inventoryValue (salesMetrics [] [sampleItem ''X'' 10] [''Main''] False) = Num 0
   \<and> onHand (sampleItem ''X'' 10) ''Main'' * inv_costPrice (sampleItem ''X'' 10) = 30"
  by (simp add: salesMetrics_def sampleItem_def onHand_def)

text \<open>
  Claim C5, amended. For named branches that are plain keys of the stock records, with
  the admin flag the inventory valuation is the sum over the items of the units on hand
  across the named branches times the cost price, and without it the valuation is 0; the
  total inventory weight is the sum over the items of the units on hand across the named
  branches times the unit weight, whatever the flag.
\<close>

theorem salesMetrics_inventory:
  "(\<not> adm \<longrightarrow> sm_inventoryValue (salesMetrics T inventory bn adm) = Num 0)
   \<and> ((\<forall>item \<in> set inventory. \<forall>b \<in> set bn. plainKey (inv_stock item) b) \<longrightarrow>
        (adm \<longrightarrow> sm_inventoryValue (salesMetrics T inventory bn adm) =
           Num (\<Sum>item\<leftarrow>inventory. (\<Sum>b\<leftarrow>bn. onHand item b) * inv_costPrice item))
        \<and> sm_totalInventoryWeight (salesMetrics T inventory bn adm) =
           Num (\<Sum>item\<leftarrow>inventory. (\<Sum>b\<leftarrow>bn. onHand item b) * inv_weight item))"
proof -
  have 1: "\<not> adm \<longrightarrow> sm_inventoryValue (salesMetrics T inventory bn adm) = Num 0"
    by (simp add: salesMetrics_def Let_def)
  have 2: "(adm \<longrightarrow> sm_inventoryValue (salesMetrics T inventory bn adm) =
           Num (\<Sum>item\<leftarrow>inventory. (\<Sum>b\<leftarrow>bn. onHand item b) * inv_costPrice item))
        \<and> sm_totalInventoryWeight (salesMetrics T inventory bn adm) =
           Num (\<Sum>item\<leftarrow>inventory. (\<Sum>b\<leftarrow>bn. onHand item b) * inv_weight item)"
    if h: "\<forall>item \<in> set inventory. \<forall>b \<in> set bn. plainKey (inv_stock item) b"
  proof -
    have v: "foldl (\<lambda>sum item. js_add sum (js_times (totalStock bn item) (inv_costPrice item)))
          (Num 0) inventory =
        Num (0 + (\<Sum>item\<leftarrow>inventory. (\<Sum>b\<leftarrow>bn. onHand item b) * inv_costPrice item))"
      using h by (intro foldl_js_add) (simp add: totalStock_plain js_times_def)
    have w: "foldl (\<lambda>sum item. js_add sum (js_times (totalStock bn item) (inv_weight item)))
          (Num 0) inventory =
        Num (0 + (\<Sum>item\<leftarrow>inventory. (\<Sum>b\<leftarrow>bn. onHand item b) * inv_weight item))"
      using h by (intro foldl_js_add) (simp add: totalStock_plain js_times_def)
    show ?thesis
      using v w by (simp add: salesMetrics_def Let_def)
  qed
  show ?thesis
    using 1 2 by blast
qed

theorem salesMetrics_inventory_witness:
  "sm_inventoryValue (salesMetrics [] [sampleItem ''X'' 10, sampleItem ''Y'' 4] [''Main'', ''Norte''] True) = Num 42
   \<and> sm_inventoryValue (salesMetrics [] [sampleItem ''X'' 10, sampleItem ''Y'' 4] [''Main'', ''Norte''] False) = Num 0
   \<and> sm_totalInventoryWeight (salesMetrics [] [sampleItem ''X'' 10, sampleItem ''Y'' 4] [''Main'', ''Norte''] False) = Num 28"
proof -
  have h: "\<forall>item \<in> set [sampleItem ''X'' 10, sampleItem ''Y'' 4].
      \<forall>b \<in> set [''Main'', ''Norte'']. plainKey (inv_stock item) b"
    by (simp add: sample_plain)
  show ?thesis
    using h
      salesMetrics_inventory [of True "[]" "[sampleItem ''X'' 10, sampleItem ''Y'' 4]" "[''Main'', ''Norte'']"]
      salesMetrics_inventory [of False "[]" "[sampleItem ''X'' 10, sampleItem ''Y'' 4]" "[''Main'', ''Norte'']"]
    by (simp add: sampleItem_def onHand_def)
qed

section \<open>Alerts\<close>

text \<open>
  Claim C6. The claim counts a missing stock entry as 0, and the code does not for a
  branch whose name \<open>Object.prototype\<close> answers: with the single named branch
  \<open>constructor\<close>, at which the item has no entry, no alert is raised although 0 is below
  the threshold of 5; and with \<open>Main\<close> and \<open>constructor\<close> named and 5 units at \<open>Main\<close>,
  the alert reports \<open>NaN\<close> as the least on-hand quantity.
\<close>

theorem lowStockAlerts_inherited_branch:
  "lowStockAlerts 0 [sampleItem ''X'' 10] [''constructor''] = Inr []
   \<and> inv_stock (sampleItem ''X'' 10) ''constructor'' = None
   \<and> inv_lowStockThreshold (sampleItem ''X'' 10) = 5
   \<and> lowStockAlerts 0 [sampleItem ''X'' 5] [''Main'', ''constructor''] =
       Inr [\<lparr>sa_id = ''X'', sa_name = ''Concentrado'', sa_branches = [''Main''],
             sa_lowestStock = Val NaN, sa_type = ''stock''\<rparr>]"
  by (simp add: lowStockAlerts_def alertsMemo_def expAlerts_def expAlertStep_def
      stockAlerts_def isLowStock_def stockOrZero_def getProp_def objectPrototypeKeys_def
      js_le_def toNumber_def sampleItem_def)




section \<open>Committing a transaction\<close>

text \<open>
  Claim C1. The code deducts, for an inventory item, only the first line that carries its
  id: with 10 units on hand and lines of 3 and of 4 units of the same product, the stock
  afterwards is 7, where the second line would have it at most 6. And at a branch whose
  name \<open>Object.prototype\<close> answers and at which the item has no entry, the previous stock
  is not counted as 0: the stock and the stock weight stored are \<open>NaN\<close>.
\<close>

theorem handleNewTransaction_stock_repeated_line:
  "inv_stock (hd (st_inventory (handleNewTransaction sampleFmt 0
       (sampleSale None [sampleLine ''X'' 3, sampleLine ''X'' 4] 105)
       (sampleState OwnerAdmin [sampleItem ''X'' 10] [])))) ''Main'' = Some (Num 7)
   \<and> ci_id (sampleLine ''X'' 4) = inv_id (sampleItem ''X'' 10)
   \<and> max 0 (onHand (sampleItem ''X'' 10) ''Main'' - ci_quantity (sampleLine ''X'' 4)) = 6
   \<and> inv_stock (hd (st_inventory (handleNewTransaction sampleFmt 0
       (sampleSaleAt ''constructor'' None [sampleLine ''X'' 3] 45)
       (sampleState OwnerAdmin [sampleItem ''X'' 10] [])))) ''constructor'' = Some NaN
   \<and> inv_stockWeight (hd (st_inventory (handleNewTransaction sampleFmt 0
       (sampleSaleAt ''constructor'' None [sampleLine ''X'' 3] 45)
       (sampleState OwnerAdmin [sampleItem ''X'' 10] [])))) ''constructor'' = Some NaN"
  by (simp add: handleNewTransaction_def deductStock_def stockOrZero_def getProp_def
      objectPrototypeKeys_def js_minus_def math_max_def js_mult_def truthyStr_def
      sampleSale_def sampleSaleAt_def sampleLine_def sampleState_def sampleItem_def onHand_def)

text \<open>
  Claim C8. As stated, for every customer id carried by the transaction, the claim fails
  for the empty id, which the handler treats as no customer: a customer whose id is the
  empty string is left as it was.
\<close>

theorem handleNewTransaction_customer_counterexample:
  "tx_customerId (sampleSale (Some []) [] 250) = Some (cust_id (sampleCustomer []))
   \<and> st_customers (handleNewTransaction sampleFmt 0 (sampleSale (Some []) [] 250)
        (sampleState OwnerAdmin [] [sampleCustomer []])) = [sampleCustomer []]
   \<and> cust_totalOrders (sampleCustomer []) = 4
   \<and> cust_totalSpent (sampleCustomer []) = 500"
  by (simp add: handleNewTransaction_def truthyStr_def sampleSale_def sampleSaleAt_def
      sampleState_def sampleCustomer_def)

text \<open>
  Claim C8, amended. For every committed transaction that carries a non-empty customer
  id, every customer with that id has afterwards one more order, a total spent greater by
  the total of the transaction, loyalty points greater by the floor of the total over 100,
  and last-purchase and last-contact dates of the day of the commit, its other fields as
  before; every other customer is unchanged. A transaction whose customer id is the empty
  string is treated as one that carries none: no customer is changed.
\<close>

theorem handleNewTransaction_customer:
  assumes "tx_customerId t = Some cid" and "i < length (st_customers s)"
  shows "length (st_customers (handleNewTransaction fmt now t s)) = length (st_customers s)
    \<and> (cid \<noteq> [] \<and> cust_id (st_customers s ! i) = cid \<longrightarrow>
         st_customers (handleNewTransaction fmt now t s) ! i =
           (st_customers s ! i)
             \<lparr>cust_totalOrders := cust_totalOrders (st_customers s ! i) + 1,
              cust_totalSpent := cust_totalSpent (st_customers s ! i) + tx_total t,
              cust_lastPurchase := fmt now,
              cust_lastContact := fmt now,
              cust_loyaltyPoints :=
                cust_loyaltyPoints (st_customers s ! i) + of_int \<lfloor>tx_total t / 100\<rfloor>\<rparr>)
    \<and> (cust_id (st_customers s ! i) \<noteq> cid \<longrightarrow>
         st_customers (handleNewTransaction fmt now t s) ! i = st_customers s ! i)
    \<and> (cid = [] \<longrightarrow>
         st_customers (handleNewTransaction fmt now t s) = st_customers s
         \<and> st_customers (handleNewTransaction fmt now t s) =
             st_customers (handleNewTransaction fmt now (t\<lparr>tx_customerId := None\<rparr>) s))"
  using assms
  by (simp add: st_customers_commit truthyStr_def recordPurchase_def math_floor_def)

theorem handleNewTransaction_customer_witness:
  "cust_totalSpent (st_customers (handleNewTransaction sampleFmt 0 (sampleSale (Some ''C1'') [] 250)
       (sampleState OwnerAdmin [] [sampleCustomer ''C1'', sampleCustomer ''C2''])) ! 0) = 750
   \<and> cust_loyaltyPoints (st_customers (handleNewTransaction sampleFmt 0 (sampleSale (Some ''C1'') [] 250)
       (sampleState OwnerAdmin [] [sampleCustomer ''C1'', sampleCustomer ''C2''])) ! 0) = 7
   \<and> cust_totalOrders (st_customers (handleNewTransaction sampleFmt 0 (sampleSale (Some ''C1'') [] 250)
       (sampleState OwnerAdmin [] [sampleCustomer ''C1'', sampleCustomer ''C2''])) ! 0) = 5
   \<and> cust_lastPurchase (st_customers (handleNewTransaction sampleFmt 0 (sampleSale (Some ''C1'') [] 250)
       (sampleState OwnerAdmin [] [sampleCustomer ''C1'', sampleCustomer ''C2''])) ! 0) = ''2/1/2024''
   \<and> st_customers (handleNewTransaction sampleFmt 0 (sampleSale (Some ''C1'') [] 250)
       (sampleState OwnerAdmin [] [sampleCustomer ''C1'', sampleCustomer ''C2''])) ! 1
       = sampleCustomer ''C2''
   \<and> st_customers (handleNewTransaction sampleFmt 0 (sampleSale (Some []) [] 250)
       (sampleState OwnerAdmin [] [sampleCustomer []])) = [sampleCustomer []]"
proof -
  let ?s = "sampleState OwnerAdmin [] [sampleCustomer ''C1'', sampleCustomer ''C2'']"
  let ?t = "sampleSale (Some ''C1'') [] 250"
  let ?c = "sampleCustomer ''C1''"
  let ?e = "sampleState OwnerAdmin [] [sampleCustomer []]"
  let ?u = "sampleSale (Some []) [] 250"
  have a1: "tx_customerId ?t = Some ''C1''" by (simp add: sampleSale_def sampleSaleAt_def)
  have a3: "0 < length (st_customers ?s)" "1 < length (st_customers ?s)"
    by (simp_all add: sampleState_def)
  have c: "''C1'' \<noteq> [] \<and> cust_id (st_customers ?s ! 0) = ''C1''"
    "cust_id (st_customers ?s ! 1) \<noteq> ''C1''"
    by (simp_all add: sampleState_def sampleCustomer_def)
  have v: "st_customers ?s ! 0 = ?c" "st_customers ?s ! 1 = sampleCustomer ''C2''"
    by (simp_all add: sampleState_def)
  have b1: "tx_customerId ?u = Some []" by (simp add: sampleSale_def sampleSaleAt_def)
  have b3: "0 < length (st_customers ?e)" by (simp add: sampleState_def)
  have "st_customers (handleNewTransaction sampleFmt 0 ?t ?s) ! 0 =
      ?c\<lparr>cust_totalOrders := cust_totalOrders ?c + 1,
         cust_totalSpent := cust_totalSpent ?c + tx_total ?t,
         cust_lastPurchase := sampleFmt 0,
         cust_lastContact := sampleFmt 0,
         cust_loyaltyPoints := cust_loyaltyPoints ?c + of_int \<lfloor>tx_total ?t / 100\<rfloor>\<rparr>"
    using handleNewTransaction_customer [OF a1 a3(1), of sampleFmt 0] c(1)
    unfolding v by blast
  moreover have "st_customers (handleNewTransaction sampleFmt 0 ?t ?s) ! 1 = sampleCustomer ''C2''"
    using handleNewTransaction_customer [OF a1 a3(2), of sampleFmt 0] c(2)
    unfolding v by blast
  moreover have "st_customers (handleNewTransaction sampleFmt 0 ?u ?e) = [sampleCustomer []]"
    using handleNewTransaction_customer [OF b1 b3, of sampleFmt 0]
    by (simp add: sampleState_def)
  moreover have "tx_total ?t = 250" by (simp add: sampleSale_def sampleSaleAt_def)
  ultimately show ?thesis
    by (simp add: sampleCustomer_def sampleFmt_def)
qed

text \<open>
  Claim C9. The commit has no failing branch and always records the transaction at the
  head of the log. A line whose id matches no inventory record is skipped: the inventory
  after the commit is the one the commit gives without that line, and it is the inventory
  before the commit when no line matches. A transaction with no customer id, or with one
  that matches no customer, leaves the customers as they were. The other effects still
  apply: an inventory item whose id is that of a line, the first with that id, has its
  stock at the branch of the transaction, a plain key of its stock record, lowered by the
  quantity of the line and floored at 0, and its stock weight set to match, whatever the
  other lines and the customer id are; and a customer matched by a non-empty customer id
  has its orders, total spent and loyalty points raised, whatever the lines are. The role
  and the active module are untouched.
\<close>

theorem handleNewTransaction_missing_references:
  "st_allTransactions (handleNewTransaction fmt now t s) = t # st_allTransactions s
   \<and> ((\<forall>item \<in> set (st_inventory s). inv_id item \<noteq> ci_id line) \<longrightarrow>
        st_inventory (handleNewTransaction fmt now (t\<lparr>tx_items := pre @ line # post\<rparr>) s) =
        st_inventory (handleNewTransaction fmt now (t\<lparr>tx_items := pre @ post\<rparr>) s))
   \<and> ((\<forall>l \<in> set (tx_items t). \<forall>item \<in> set (st_inventory s). inv_id item \<noteq> ci_id l) \<longrightarrow>
        st_inventory (handleNewTransaction fmt now t s) = st_inventory s)
   \<and> (tx_customerId t = None \<or> (\<forall>c \<in> set (st_customers s). Some (cust_id c) \<noteq> tx_customerId t)
        \<longrightarrow> st_customers (handleNewTransaction fmt now t s) = st_customers s)
   \<and> (i < length (st_inventory s) \<and> tx_items t = ps @ sold # qs
        \<and> (\<forall>l \<in> set ps. ci_id l \<noteq> ci_id sold) \<and> ci_id sold = inv_id (st_inventory s ! i)
        \<and> plainKey (inv_stock (st_inventory s ! i)) (tx_branch t) \<longrightarrow>
        inv_stock (st_inventory (handleNewTransaction fmt now t s) ! i) (tx_branch t) =
          Some (Num (max 0 (onHand (st_inventory s ! i) (tx_branch t) - ci_quantity sold)))
        \<and> inv_stockWeight (st_inventory (handleNewTransaction fmt now t s) ! i) (tx_branch t) =
          Some (Num (max 0 (onHand (st_inventory s ! i) (tx_branch t) - ci_quantity sold)
                  * inv_weight (st_inventory s ! i))))
   \<and> (j < length (st_customers s) \<and> tx_customerId t = Some cid \<and> cid \<noteq> []
        \<and> cust_id (st_customers s ! j) = cid \<longrightarrow>
        cust_totalOrders (st_customers (handleNewTransaction fmt now t s) ! j) =
          cust_totalOrders (st_customers s ! j) + 1
        \<and> cust_totalSpent (st_customers (handleNewTransaction fmt now t s) ! j) =
          cust_totalSpent (st_customers s ! j) + tx_total t
        \<and> cust_loyaltyPoints (st_customers (handleNewTransaction fmt now t s) ! j) =
          cust_loyaltyPoints (st_customers s ! j) + of_int \<lfloor>tx_total t / 100\<rfloor>)
   \<and> st_currentRole (handleNewTransaction fmt now t s) = st_currentRole s
   \<and> st_activeModule (handleNewTransaction fmt now t s) = st_activeModule s"
proof -
  have 1: "(\<forall>item \<in> set (st_inventory s). inv_id item \<noteq> ci_id line) \<longrightarrow>
        st_inventory (handleNewTransaction fmt now (t\<lparr>tx_items := pre @ line # post\<rparr>) s) =
        st_inventory (handleNewTransaction fmt now (t\<lparr>tx_items := pre @ post\<rparr>) s)"
    by (simp add: st_inventory_commit deductStock_skip)
  have 2: "(\<forall>l \<in> set (tx_items t). \<forall>item \<in> set (st_inventory s). inv_id item \<noteq> ci_id l) \<longrightarrow>
        st_inventory (handleNewTransaction fmt now t s) = st_inventory s"
  proof
    assume a: "\<forall>l \<in> set (tx_items t). \<forall>item \<in> set (st_inventory s). inv_id item \<noteq> ci_id l"
    have "map (deductStock now t) (st_inventory s) = map (\<lambda>item. item) (st_inventory s)"
    proof (rule map_cong [OF refl])
      fix item assume "item \<in> set (st_inventory s)"
      with a have "\<forall>l \<in> set (tx_items t). ci_id l \<noteq> inv_id item" by metis
      then show "deductStock now t item = item" by (rule deductStock_unmatched)
    qed
    then show "st_inventory (handleNewTransaction fmt now t s) = st_inventory s"
      by (simp add: st_inventory_commit)
  qed
  have 3: "tx_customerId t = None \<or> (\<forall>c \<in> set (st_customers s). Some (cust_id c) \<noteq> tx_customerId t)
        \<longrightarrow> st_customers (handleNewTransaction fmt now t s) = st_customers s"
  proof
    assume a: "tx_customerId t = None \<or> (\<forall>c \<in> set (st_customers s). Some (cust_id c) \<noteq> tx_customerId t)"
    then have "\<forall>c \<in> set (st_customers s). Some (cust_id c) \<noteq> tx_customerId t" by auto
    then have "map (recordPurchase fmt now t) (st_customers s) = map (\<lambda>c. c) (st_customers s)"
      by (intro map_cong [OF refl]) (simp add: recordPurchase_unmatched)
    then show "st_customers (handleNewTransaction fmt now t s) = st_customers s"
      by (simp add: st_customers_commit)
  qed
  have 4: "i < length (st_inventory s) \<and> tx_items t = ps @ sold # qs
        \<and> (\<forall>l \<in> set ps. ci_id l \<noteq> ci_id sold) \<and> ci_id sold = inv_id (st_inventory s ! i)
        \<and> plainKey (inv_stock (st_inventory s ! i)) (tx_branch t) \<longrightarrow>
        inv_stock (st_inventory (handleNewTransaction fmt now t s) ! i) (tx_branch t) =
          Some (Num (max 0 (onHand (st_inventory s ! i) (tx_branch t) - ci_quantity sold)))
        \<and> inv_stockWeight (st_inventory (handleNewTransaction fmt now t s) ! i) (tx_branch t) =
          Some (Num (max 0 (onHand (st_inventory s ! i) (tx_branch t) - ci_quantity sold)
                  * inv_weight (st_inventory s ! i)))"
  proof
    assume a: "i < length (st_inventory s) \<and> tx_items t = ps @ sold # qs
        \<and> (\<forall>l \<in> set ps. ci_id l \<noteq> ci_id sold) \<and> ci_id sold = inv_id (st_inventory s ! i)
        \<and> plainKey (inv_stock (st_inventory s ! i)) (tx_branch t)"
    then have n: "st_inventory (handleNewTransaction fmt now t s) ! i =
        deductStock now t (st_inventory s ! i)"
      by (simp add: st_inventory_commit)
    from a have a1: "tx_items t = ps @ sold # qs"
      and a2: "\<forall>l \<in> set ps. ci_id l \<noteq> ci_id sold"
      and a3: "ci_id sold = inv_id (st_inventory s ! i)"
      and a4: "plainKey (inv_stock (st_inventory s ! i)) (tx_branch t)"
      by blast+
    show "inv_stock (st_inventory (handleNewTransaction fmt now t s) ! i) (tx_branch t) =
          Some (Num (max 0 (onHand (st_inventory s ! i) (tx_branch t) - ci_quantity sold)))
        \<and> inv_stockWeight (st_inventory (handleNewTransaction fmt now t s) ! i) (tx_branch t) =
          Some (Num (max 0 (onHand (st_inventory s ! i) (tx_branch t) - ci_quantity sold)
                  * inv_weight (st_inventory s ! i)))"
      unfolding n deductStock_first_line [OF a1 a2 a3 a4] by simp
  qed
  have 5: "j < length (st_customers s) \<and> tx_customerId t = Some cid \<and> cid \<noteq> []
        \<and> cust_id (st_customers s ! j) = cid \<longrightarrow>
        cust_totalOrders (st_customers (handleNewTransaction fmt now t s) ! j) =
          cust_totalOrders (st_customers s ! j) + 1
        \<and> cust_totalSpent (st_customers (handleNewTransaction fmt now t s) ! j) =
          cust_totalSpent (st_customers s ! j) + tx_total t
        \<and> cust_loyaltyPoints (st_customers (handleNewTransaction fmt now t s) ! j) =
          cust_loyaltyPoints (st_customers s ! j) + of_int \<lfloor>tx_total t / 100\<rfloor>"
    by (simp add: st_customers_commit truthyStr_def recordPurchase_def math_floor_def)
  have 6: "st_currentRole (handleNewTransaction fmt now t s) = st_currentRole s"
     "st_activeModule (handleNewTransaction fmt now t s) = st_activeModule s"
    by (simp_all add: handleNewTransaction_def Let_def)
  show ?thesis
    using 1 2 3 4 5 6 st_allTransactions_commit [of fmt now t s] by blast
qed

theorem handleNewTransaction_missing_references_witness:
  "st_allTransactions (handleNewTransaction sampleFmt 0
       (sampleSale (Some ''C9'') [sampleLine ''Z'' 2, sampleLine ''X'' 3] 75)
       (sampleState OwnerAdmin [sampleItem ''X'' 10] [sampleCustomer ''C1'']))
     = [sampleSale (Some ''C9'') [sampleLine ''Z'' 2, sampleLine ''X'' 3] 75]
   \<and> inv_stock (st_inventory (handleNewTransaction sampleFmt 0
       (sampleSale (Some ''C9'') [sampleLine ''Z'' 2, sampleLine ''X'' 3] 75)
       (sampleState OwnerAdmin [sampleItem ''X'' 10] [sampleCustomer ''C1''])) ! 0) ''Main''
     = Some (Num 7)
   \<and> inv_stockWeight (st_inventory (handleNewTransaction sampleFmt 0
       (sampleSale (Some ''C9'') [sampleLine ''Z'' 2, sampleLine ''X'' 3] 75)
       (sampleState OwnerAdmin [sampleItem ''X'' 10] [sampleCustomer ''C1''])) ! 0) ''Main''
     = Some (Num 14)
   \<and> st_inventory (handleNewTransaction sampleFmt 0
       (sampleSale (Some ''C9'') [sampleLine ''Z'' 2, sampleLine ''X'' 3] 75)
       (sampleState OwnerAdmin [sampleItem ''X'' 10] [sampleCustomer ''C1'']))
     = st_inventory (handleNewTransaction sampleFmt 0
       (sampleSale (Some ''C9'') [sampleLine ''X'' 3] 75)
       (sampleState OwnerAdmin [sampleItem ''X'' 10] [sampleCustomer ''C1'']))
   \<and> st_customers (handleNewTransaction sampleFmt 0
       (sampleSale (Some ''C9'') [sampleLine ''Z'' 2, sampleLine ''X'' 3] 75)
       (sampleState OwnerAdmin [sampleItem ''X'' 10] [sampleCustomer ''C1'']))
     = [sampleCustomer ''C1'']
   \<and> st_customers (handleNewTransaction sampleFmt 0
       (sampleSale None [sampleLine ''Z'' 2, sampleLine ''X'' 3] 75)
       (sampleState OwnerAdmin [sampleItem ''X'' 10] [sampleCustomer ''C1'']))
     = [sampleCustomer ''C1'']
   \<and> st_inventory (handleNewTransaction sampleFmt 0
       (sampleSale (Some ''C1'') [sampleLine ''Z'' 2] 250)
       (sampleState OwnerAdmin [sampleItem ''X'' 10] [sampleCustomer ''C1'']))
     = [sampleItem ''X'' 10]
   \<and> cust_totalOrders (st_customers (handleNewTransaction sampleFmt 0
       (sampleSale (Some ''C1'') [sampleLine ''Z'' 2] 250)
       (sampleState OwnerAdmin [sampleItem ''X'' 10] [sampleCustomer ''C1''])) ! 0) = 5
   \<and> cust_totalSpent (st_customers (handleNewTransaction sampleFmt 0
       (sampleSale (Some ''C1'') [sampleLine ''Z'' 2] 250)
       (sampleState OwnerAdmin [sampleItem ''X'' 10] [sampleCustomer ''C1''])) ! 0) = 750
   \<and> cust_loyaltyPoints (st_customers (handleNewTransaction sampleFmt 0
       (sampleSale (Some ''C1'') [sampleLine ''Z'' 2] 250)
       (sampleState OwnerAdmin [sampleItem ''X'' 10] [sampleCustomer ''C1''])) ! 0) = 7"
proof -
  let ?s = "sampleState OwnerAdmin [sampleItem ''X'' 10] [sampleCustomer ''C1'']"
  let ?t = "sampleSale (Some ''C9'') [sampleLine ''Z'' 2, sampleLine ''X'' 3] 75"
  let ?n = "sampleSale None [sampleLine ''Z'' 2, sampleLine ''X'' 3] 75"
  let ?u = "sampleSale (Some ''C1'') [sampleLine ''Z'' 2] 250"
  have s: "st_inventory ?s = [sampleItem ''X'' 10]" "st_customers ?s = [sampleCustomer ''C1'']"
    "st_allTransactions ?s = []"
    by (simp_all add: sampleState_def)
  have h1: "\<forall>item \<in> set (st_inventory ?s). inv_id item \<noteq> ci_id (sampleLine ''Z'' 2)"
    unfolding s by (simp add: sampleItem_def sampleLine_def)
  have h2: "\<forall>l \<in> set (tx_items ?u). \<forall>item \<in> set (st_inventory ?s). inv_id item \<noteq> ci_id l"
    unfolding s by (simp add: sampleItem_def sampleLine_def sampleSale_def sampleSaleAt_def)
  have h3: "\<forall>c \<in> set (st_customers ?s). Some (cust_id c) \<noteq> tx_customerId ?t"
    unfolding s by (simp add: sampleCustomer_def sampleSale_def sampleSaleAt_def)
  have h4: "tx_customerId ?n = None"
    by (simp add: sampleSale_def sampleSaleAt_def)
  have h5: "0 < length (st_inventory ?s) \<and> tx_items ?t = [sampleLine ''Z'' 2] @ sampleLine ''X'' 3 # []
      \<and> (\<forall>l \<in> set [sampleLine ''Z'' 2]. ci_id l \<noteq> ci_id (sampleLine ''X'' 3))
      \<and> ci_id (sampleLine ''X'' 3) = inv_id (st_inventory ?s ! 0)
      \<and> plainKey (inv_stock (st_inventory ?s ! 0)) (tx_branch ?t)"
    unfolding s
    by (simp add: sampleLine_def sampleSale_def sampleSaleAt_def sample_plain)
      (simp add: sampleItem_def)
  have h6: "0 < length (st_customers ?s) \<and> tx_customerId ?u = Some ''C1'' \<and> ''C1'' \<noteq> []
      \<and> cust_id (st_customers ?s ! 0) = ''C1''"
    unfolding s by (simp add: sampleCustomer_def sampleSale_def sampleSaleAt_def)
  have u: "?t\<lparr>tx_items := [] @ sampleLine ''Z'' 2 # [sampleLine ''X'' 3]\<rparr> = ?t"
    "?t\<lparr>tx_items := [] @ [sampleLine ''X'' 3]\<rparr> = sampleSale (Some ''C9'') [sampleLine ''X'' 3] 75"
    by (simp_all add: sampleSale_def sampleSaleAt_def)
  have v: "onHand (st_inventory ?s ! 0) ''Main'' = 10" "inv_weight (st_inventory ?s ! 0) = 2"
    "tx_branch ?t = ''Main''" "ci_quantity (sampleLine ''X'' 3) = 3"
    "cust_totalOrders (st_customers ?s ! 0) = 4" "cust_totalSpent (st_customers ?s ! 0) = 500"
    "cust_loyaltyPoints (st_customers ?s ! 0) = 5" "tx_total ?u = 250"
    unfolding s
    by (simp_all add: sampleItem_def onHand_def sampleSale_def sampleSaleAt_def sampleLine_def
        sampleCustomer_def)
  have "st_inventory (handleNewTransaction sampleFmt 0 ?t ?s) =
      st_inventory (handleNewTransaction sampleFmt 0 (sampleSale (Some ''C9'') [sampleLine ''X'' 3] 75) ?s)"
    using h1 handleNewTransaction_missing_references
      [of sampleFmt 0 ?t ?s "sampleLine ''Z'' 2" "[]" "[sampleLine ''X'' 3]"]
    unfolding u by blast
  moreover have "st_allTransactions (handleNewTransaction sampleFmt 0 ?t ?s) = [?t]"
    using handleNewTransaction_missing_references [of sampleFmt 0 ?t ?s]
    unfolding s by blast
  moreover have "inv_stock (st_inventory (handleNewTransaction sampleFmt 0 ?t ?s) ! 0) ''Main''
        = Some (Num 7)
      \<and> inv_stockWeight (st_inventory (handleNewTransaction sampleFmt 0 ?t ?s) ! 0) ''Main''
        = Some (Num 14)"
  proof -
    have "inv_stock (st_inventory (handleNewTransaction sampleFmt 0 ?t ?s) ! 0) (tx_branch ?t) =
          Some (Num (max 0 (onHand (st_inventory ?s ! 0) (tx_branch ?t)
            - ci_quantity (sampleLine ''X'' 3))))
        \<and> inv_stockWeight (st_inventory (handleNewTransaction sampleFmt 0 ?t ?s) ! 0) (tx_branch ?t) =
          Some (Num (max 0 (onHand (st_inventory ?s ! 0) (tx_branch ?t)
            - ci_quantity (sampleLine ''X'' 3)) * inv_weight (st_inventory ?s ! 0)))"
      using h5 handleNewTransaction_missing_references
        [of sampleFmt 0 ?t ?s _ _ _ 0 "[sampleLine ''Z'' 2]" "sampleLine ''X'' 3" "[]"]
      by blast
    then show ?thesis
      unfolding v by simp
  qed
  moreover have "st_inventory (handleNewTransaction sampleFmt 0 ?u ?s) = [sampleItem ''X'' 10]"
    using h2 handleNewTransaction_missing_references [of sampleFmt 0 ?u ?s]
    unfolding s by blast
  moreover have "st_customers (handleNewTransaction sampleFmt 0 ?t ?s) = [sampleCustomer ''C1'']"
    using h3 handleNewTransaction_missing_references [of sampleFmt 0 ?t ?s]
    unfolding s by blast
  moreover have "st_customers (handleNewTransaction sampleFmt 0 ?n ?s) = [sampleCustomer ''C1'']"
    using h4 handleNewTransaction_missing_references [of sampleFmt 0 ?n ?s]
    unfolding s by blast
  moreover have "cust_totalOrders (st_customers (handleNewTransaction sampleFmt 0 ?u ?s) ! 0) = 5
      \<and> cust_totalSpent (st_customers (handleNewTransaction sampleFmt 0 ?u ?s) ! 0) = 750
      \<and> cust_loyaltyPoints (st_customers (handleNewTransaction sampleFmt 0 ?u ?s) ! 0) = 7"
  proof -
    have "cust_totalOrders (st_customers (handleNewTransaction sampleFmt 0 ?u ?s) ! 0) =
          cust_totalOrders (st_customers ?s ! 0) + 1
        \<and> cust_totalSpent (st_customers (handleNewTransaction sampleFmt 0 ?u ?s) ! 0) =
          cust_totalSpent (st_customers ?s ! 0) + tx_total ?u
        \<and> cust_loyaltyPoints (st_customers (handleNewTransaction sampleFmt 0 ?u ?s) ! 0) =
          cust_loyaltyPoints (st_customers ?s ! 0) + of_int \<lfloor>tx_total ?u / 100\<rfloor>"
      using h6 handleNewTransaction_missing_references
        [of sampleFmt 0 ?u ?s _ _ _ _ _ _ _ 0 "''C1''"]
      by blast
    then show ?thesis
      unfolding v by simp
  qed
  ultimately show ?thesis by blast
qed

end
